theory Spec2Isabelle
  imports Complex_Main "HOL-Library.Sublist"
begin

section \<open>The hanging-indent plugin of torah-window.ts\<close>

text \<open>
  The plugin registers two hooks. \<open>preprocessElementStyleHook\<close> copies the value of the
  \<open>hanging-indent\<close> style property into the node context; \<open>postLayoutBlockHangingIndent\<close>
  measures a laid-out block and, when the block opted in and spans two lines or more,
  inserts two floated \<open>span\<close> elements in front of its children.

  The hooks mutate the node context and the view tree in place; here each hook takes the
  node context (which holds the block's view subtree) and returns the updated one. The
  calls to \<open>Logging.logger.info\<close> write to the logger only and are left out.
\<close>

subsection \<open>Strings and numbers\<close>

text \<open>
  A JavaScript string is a sequence of UTF-16 code units, and \<open>length\<close>, \<open>trim\<close> and the
  regular expression of the source all work on code units. Text content and property
  values are therefore lists of code units. Property names, class names and the CSS text
  the plugin writes are fixed ASCII constants and are kept as HOL strings. Numbers
  (pixel measures) are reals: NaN and the infinities are not represented.
\<close>

type_synonym jsstring = "nat list"

definition js :: "string \<Rightarrow> jsstring" where
  "js s = map of_char s"

text \<open>
  The characters that \<open>\s\<close> matches and that \<open>trim\<close> strips: the WhiteSpace and
  LineTerminator productions of ECMAScript (TAB, LF, VT, FF, CR, SP, NBSP, U+1680,
  U+2000 to U+200A, U+2028, U+2029, U+202F, U+205F, U+3000, U+FEFF).
\<close>

definition isWhiteSpace :: "nat \<Rightarrow> bool" where
  "isWhiteSpace c \<longleftrightarrow>
     (9 \<le> c \<and> c \<le> 13) \<or> c = 32 \<or> c = 160 \<or> c = 5760 \<or> (8192 \<le> c \<and> c \<le> 8202) \<or>
     c = 8232 \<or> c = 8233 \<or> c = 8239 \<or> c = 8287 \<or> c = 12288 \<or> c = 65279"

definition trim :: "jsstring \<Rightarrow> jsstring" where
  "trim s = rev (dropWhile isWhiteSpace (rev (dropWhile isWhiteSpace s)))"

subsection \<open>The regular expression \<open>/^(\s*\S+\s+)/\<close>\<close>

text \<open>
  The pattern is a sequence of greedy quantifiers over character classes, anchored at
  the start of the string. \<open>matchHere\<close> is the backtracking matcher of ECMAScript for
  such patterns: a quantifier first takes the longest run of its class and gives
  characters back one at a time while the rest of the pattern fails. The result is the
  number of code units matched. The only group of the pattern spans all of it, so
  \<open>match[1]\<close> is the whole match.
\<close>

datatype char_class = Space | NonSpace

datatype quantifier = ZeroOrMore | OneOrMore

type_synonym regex = "(char_class \<times> quantifier) list"

fun inClass :: "char_class \<Rightarrow> nat \<Rightarrow> bool" where
  "inClass Space c = isWhiteSpace c"
| "inClass NonSpace c = (\<not> isWhiteSpace c)"

fun minCount :: "quantifier \<Rightarrow> nat" where
  "minCount ZeroOrMore = 0"
| "minCount OneOrMore = 1"

fun firstSome :: "('a \<Rightarrow> 'b option) \<Rightarrow> 'a list \<Rightarrow> 'b option" where
  "firstSome f [] = None"
| "firstSome f (k # ks) = (case f k of Some r \<Rightarrow> Some r | None \<Rightarrow> firstSome f ks)"

primrec matchHere :: "regex \<Rightarrow> jsstring \<Rightarrow> nat option" where
  "matchHere [] s = Some 0"
| "matchHere (t # ts) s =
     firstSome (\<lambda>k. map_option (\<lambda>r. k + r) (matchHere ts (drop k s)))
       (rev [minCount (snd t) ..< Suc (length (takeWhile (inClass (fst t)) s))])"

definition FIRST_WORD_REGEX :: regex where
  "FIRST_WORD_REGEX = [(Space, ZeroOrMore), (NonSpace, OneOrMore), (Space, OneOrMore)]"

text \<open>\<open>text.match(/^(\s*\S+\s+)/)\<close>, giving \<open>match[1]\<close> when there is a match.\<close>

definition matchFirstWord :: "jsstring \<Rightarrow> jsstring option" where
  "matchFirstWord text = map_option (\<lambda>n. take n text) (matchHere FIRST_WORD_REGEX text)"

subsection \<open>The view tree\<close>

text \<open>
  A node of the view tree is a text node or an element. The traversals of the source
  test \<open>nodeType === Node.TEXT_NODE\<close> and otherwise loop over \<open>childNodes\<close>, so a comment
  or any other childless node behaves as an element without children. Of an element
  the model keeps the tag name, the class name, the inline style and the children.
\<close>

datatype css_text =
    Literal string
  | NumberPx real  \<comment> \<open>the template string \<open>`${n}px`\<close> for the number \<open>n\<close>\<close>

datatype node = TextNode jsstring | ElementNode element
and element =
  Element (nodeName: string) (className: string)
          (style: "(string \<times> css_text) list") (childNodes: "node list")

text \<open>
  A text node found by a traversal is an object reference in the source. Here it is the
  path of child indices leading from the block element to the node, with the text.
\<close>

type_synonym text_ref = "nat list \<times> jsstring"

text \<open>
  \<open>range.setStart(node, s); range.setEnd(node, e)\<close> on a text node is \<open>TextRange\<close>;
  \<open>range.selectNode(node)\<close> is \<open>NodeRange\<close>.
\<close>

datatype range = TextRange "nat list" nat nat | NodeRange "nat list"

record rect =
  top :: real
  width :: real

text \<open>
  \<open>column.clientLayout.getRangeClientRects\<close> is a capability of the host: the model
  takes it as given, with no assumption on what it returns.
\<close>

record clientLayout =
  getRangeClientRects :: "range \<Rightarrow> rect list"

record column =
  clientLayout :: clientLayout

subsection \<open>The node context\<close>

datatype prop_value = PStr jsstring | PNum real

text \<open>JavaScript truthiness of a property value: \<open>""\<close> and \<open>0\<close> are falsy.\<close>

fun truthy :: "prop_value \<Rightarrow> bool" where
  "truthy (PStr s) = (s \<noteq> [])"
| "truthy (PNum n) = (n \<noteq> 0)"

type_synonym props = "string \<rightharpoonup> prop_value"

record nodeContext =
  viewNode :: "element option"
  inline :: bool
  fragmentIndex :: int
  inheritedProps :: "props option"
  pluginProps :: "props option"

definition HANGING_INDENT_PROP :: string where
  "HANGING_INDENT_PROP = ''hanging-indent''"

subsection \<open>Hook 1: \<open>preprocessElementStyleHook\<close>\<close>

text \<open>
  The value found in the style object: a \<open>Css.Ident\<close>, a primitive string, another truthy
  value (given by what its \<open>toString()\<close> returns), or a falsy value other than the empty
  string (\<open>null\<close>, \<open>0\<close>, \<open>false\<close>). A missing key is \<open>None\<close> of the map. The values
  of a style object are \<open>Css.Val\<close> objects, whose \<open>toString()\<close> returns a string.
\<close>

datatype style_value =
    Ident jsstring
  | StringVal jsstring
  | OtherVal jsstring
  | Falsy

fun styleTruthy :: "style_value \<Rightarrow> bool" where
  "styleTruthy (Ident name) = True"
| "styleTruthy (StringVal s) = (s \<noteq> [])"
| "styleTruthy (OtherVal s) = True"
| "styleTruthy Falsy = False"

fun stringValueOf :: "style_value \<Rightarrow> jsstring" where
  "stringValueOf (Ident name) = name"
| "stringValueOf (StringVal s) = s"
| "stringValueOf (OtherVal s) = s"
| "stringValueOf Falsy = []"

definition preprocessElementStyleHook ::
  "nodeContext \<Rightarrow> (string \<rightharpoonup> style_value) \<Rightarrow> nodeContext" where
  "preprocessElementStyleHook nodeContext styleObj =
     (case styleObj HANGING_INDENT_PROP of
        None \<Rightarrow> nodeContext
      | Some v \<Rightarrow>
          if \<not> styleTruthy v then nodeContext
          else
            let stringValue = stringValueOf v;
                props = (case inheritedProps nodeContext of None \<Rightarrow> Map.empty | Some m \<Rightarrow> m)
            in nodeContext\<lparr>inheritedProps :=
                 Some (props(HANGING_INDENT_PROP \<mapsto> PStr stringValue))\<rparr>)"

subsection \<open>Hook 2: \<open>postLayoutBlockHangingIndent\<close>\<close>

text \<open>\<open>findFirstTextNode\<close>, with the loop over \<open>childNodes\<close> as a second function.\<close>

fun findFirstTextNode :: "nat list \<Rightarrow> node \<Rightarrow> text_ref option"
and findFirstTextNode_loop :: "nat list \<Rightarrow> nat \<Rightarrow> node list \<Rightarrow> text_ref option" where
  "findFirstTextNode p (TextNode text) =
     (if length (trim text) > 0 then Some (p, text) else None)"
| "findFirstTextNode p (ElementNode (Element nm cl st cs)) = findFirstTextNode_loop p 0 cs"
| "findFirstTextNode_loop p i [] = None"
| "findFirstTextNode_loop p i (c # cs) =
     (case findFirstTextNode (p @ [i]) c of
        Some result \<Rightarrow> Some result
      | None \<Rightarrow> findFirstTextNode_loop p (Suc i) cs)"

text \<open>\<open>collectTextNodes\<close>; \<open>textNodes.push\<close> appends to the list passed along.\<close>

fun collectTextNodes :: "nat list \<Rightarrow> node \<Rightarrow> text_ref list \<Rightarrow> text_ref list"
and collectTextNodes_loop :: "nat list \<Rightarrow> nat \<Rightarrow> node list \<Rightarrow> text_ref list \<Rightarrow> text_ref list" where
  "collectTextNodes p (TextNode text) textNodes =
     (if length (trim text) > 0 then textNodes @ [(p, text)] else textNodes)"
| "collectTextNodes p (ElementNode (Element nm cl st cs)) textNodes =
     collectTextNodes_loop p 0 cs textNodes"
| "collectTextNodes_loop p i [] textNodes = textNodes"
| "collectTextNodes_loop p i (c # cs) textNodes =
     collectTextNodes_loop p (Suc i) cs (collectTextNodes (p @ [i]) c textNodes)"

text \<open>
  Lines 126 to 167: the width of the first word. \<open>firstWordWidth\<close> starts at 0 and each
  rectangle of the range over \<open>match[1]\<close> adds its width.
\<close>

definition measureFirstWord :: "column \<Rightarrow> text_ref option \<Rightarrow> real" where
  "measureFirstWord column firstTextNode =
     (case firstTextNode of
        None \<Rightarrow> 0
      | Some (p, text) \<Rightarrow>
          (case matchFirstWord text of
             None \<Rightarrow> 0
           | Some firstWordWithSpace \<Rightarrow>
               fold (\<lambda>rect firstWordWidth. firstWordWidth + width rect)
                 (getRangeClientRects (clientLayout column)
                    (TextRange p 0 (length firstWordWithSpace))) 0))"

text \<open>
  Lines 177 to 206: \<open>lineYPositions\<close> is a \<open>Set\<close> of numbers. A JavaScript \<open>Set\<close> keeps its
  members in insertion order without duplicates, and \<open>size\<close> is their number.
\<close>

definition setAdd :: "int \<Rightarrow> int list \<Rightarrow> int list" where
  "setAdd x s = (if x \<in> set s then s else s @ [x])"

definition collectLineYPositions :: "column \<Rightarrow> text_ref list \<Rightarrow> int list" where
  "collectLineYPositions column textNodes =
     fold (\<lambda>textNode lineYPositions.
             fold (\<lambda>rect lineYPositions. setAdd (round (top rect)) lineYPositions)
               (getRangeClientRects (clientLayout column) (NodeRange (fst textNode)))
               lineYPositions)
       textNodes []"

text \<open>Lines 224 to 238: the two floats.\<close>

definition floatSpacer :: element where
  "floatSpacer =
     Element ''span'' ''vivliostyle-hanging-indent-spacer''
       [(''cssFloat'', Literal ''inline-start''),
        (''width'', Literal ''0''),
        (''height'', Literal ''1.5rlh''),
        (''lineHeight'', Literal ''inherit'')] []"

definition floatIndent :: "real \<Rightarrow> element" where
  "floatIndent firstWordWidth =
     Element ''span'' ''vivliostyle-hanging-indent-pusher''
       [(''cssFloat'', Literal ''inline-start''),
        (''clear'', Literal ''inline-start''),
        (''width'', NumberPx firstWordWidth),
        (''height'', Literal ''1px'')] []"

text \<open>
  \<open>parent.insertBefore(newNode, ref)\<close>: \<open>ref\<close> is a child of the parent, given by its
  index, or \<open>null\<close>, and then the new node is appended.
\<close>

definition setChildNodes :: "element \<Rightarrow> node list \<Rightarrow> element" where
  "setChildNodes e cs = Element (nodeName e) (className e) (style e) cs"

definition insertBefore :: "element \<Rightarrow> node \<Rightarrow> nat option \<Rightarrow> element" where
  "insertBefore parent newNode ref =
     (case ref of
        None \<Rightarrow> setChildNodes parent (childNodes parent @ [newNode])
      | Some i \<Rightarrow>
          setChildNodes parent (take i (childNodes parent) @ newNode # drop i (childNodes parent)))"

text \<open>
  Lines 241 to 243. \<open>firstChild\<close> is read once; after the spacer went in before it the
  same child sits one position further, and the pusher goes in before it there.
\<close>

definition insertMarkers :: "element \<Rightarrow> real \<Rightarrow> element" where
  "insertMarkers blockElement firstWordWidth =
     (let firstChild = (if childNodes blockElement = [] then None else Some (0::nat));
          blockElement1 = insertBefore blockElement (ElementNode floatSpacer) firstChild;
          blockElement2 = insertBefore blockElement1 (ElementNode (floatIndent firstWordWidth))
                            (map_option Suc firstChild)
      in blockElement2)"

text \<open>Lines 250 to 255: the three entries of \<open>pluginProps\<close>.\<close>

definition writeDiagnostics :: "props option \<Rightarrow> real \<Rightarrow> nat \<Rightarrow> props" where
  "writeDiagnostics pluginProps0 firstWordWidth lineCount =
     (let props = (case pluginProps0 of None \<Rightarrow> Map.empty | Some m \<Rightarrow> m)
      in props(''torahWindow:applied'' \<mapsto> PNum 1,
               ''torahWindow:width'' \<mapsto> PNum firstWordWidth,
               ''torahWindow:lineCount'' \<mapsto> PNum (real lineCount)))"

definition postLayoutBlockHangingIndent ::
  "nodeContext \<Rightarrow> nodeContext list \<Rightarrow> column \<Rightarrow> nodeContext" where
  "postLayoutBlockHangingIndent nodeContext checkPoints column =
     (if length checkPoints = 0 then nodeContext
      else if inline nodeContext then nodeContext
      else if fragmentIndex nodeContext > 1 then nodeContext
      else
       (case inheritedProps nodeContext of
          None \<Rightarrow> nodeContext
        | Some inherited \<Rightarrow>
       (case inherited HANGING_INDENT_PROP of
          None \<Rightarrow> nodeContext
        | Some hangingIndentValue \<Rightarrow>
        if \<not> truthy hangingIndentValue then nodeContext
        else if hangingIndentValue \<noteq> PStr (js ''first-word'') then nodeContext
        else
       (case viewNode nodeContext of
          None \<Rightarrow> nodeContext
        | Some blockElement \<Rightarrow>
       (let firstTextNode = findFirstTextNode [] (ElementNode blockElement);
            firstWordWidth = measureFirstWord column firstTextNode
        in if firstTextNode = None \<or> firstWordWidth = 0 then nodeContext
        else
       (let textNodes = collectTextNodes [] (ElementNode blockElement) [];
            lineYPositions = collectLineYPositions column textNodes;
            lineCount = length lineYPositions
        in if lineCount < 2 then nodeContext
        else nodeContext
               \<lparr>viewNode := Some (insertMarkers blockElement firstWordWidth),
                pluginProps :=
                  Some (writeDiagnostics (pluginProps nodeContext)
                          firstWordWidth lineCount)\<rparr>))))))"

subsection \<open>Notions of the specification\<close>

text \<open>
  The eligibility gate of the specification: layout checkpoints exist, the node is
  block-level, the fragment index does not exceed 1, and the inherited properties carry
  \<open>hanging-indent\<close> with the value \<open>"first-word"\<close>.
\<close>

definition passesGate :: "nodeContext \<Rightarrow> nodeContext list \<Rightarrow> bool" where
  "passesGate nodeContext checkPoints \<longleftrightarrow>
     checkPoints \<noteq> [] \<and> \<not> inline nodeContext \<and> fragmentIndex nodeContext \<le> 1 \<and>
     (\<exists>inherited. inheritedProps nodeContext = Some inherited \<and>
        inherited HANGING_INDENT_PROP = Some (PStr (js ''first-word'')))"

text \<open>
  The text nodes of a subtree in document order, each with its path; a text node is
  non-empty when it holds a character that is not whitespace.
\<close>

fun textNodesOf :: "nat list \<Rightarrow> node \<Rightarrow> text_ref list"
and textNodesOf_children :: "nat list \<Rightarrow> nat \<Rightarrow> node list \<Rightarrow> text_ref list" where
  "textNodesOf p (TextNode t) = [(p, t)]"
| "textNodesOf p (ElementNode (Element nm cl st cs)) = textNodesOf_children p 0 cs"
| "textNodesOf_children p i [] = []"
| "textNodesOf_children p i (c # cs) =
     textNodesOf (p @ [i]) c @ textNodesOf_children p (Suc i) cs"

definition isNonEmptyText :: "text_ref \<Rightarrow> bool" where
  "isNonEmptyText textNode \<longleftrightarrow> list_ex (\<lambda>c. \<not> isWhiteSpace c) (snd textNode)"

definition nonEmptyTextNodes :: "element \<Rightarrow> text_ref list" where
  "nonEmptyTextNodes blockElement =
     filter isNonEmptyText (textNodesOf [] (ElementNode blockElement))"

text \<open>
  The Line Set of the specification: the rounded \<open>top\<close> of every rectangle of every
  non-empty text node of the block.
\<close>

definition observedTops :: "column \<Rightarrow> element \<Rightarrow> int set" where
  "observedTops column blockElement =
     (\<Union>textNode \<in> set (nonEmptyTextNodes blockElement).
        (\<lambda>rect. round (top rect)) `
          set (getRangeClientRects (clientLayout column) (NodeRange (fst textNode))))"

text \<open>The first-word width that the hook measures on a block.\<close>

abbreviation firstWordWidthOf :: "column \<Rightarrow> element \<Rightarrow> real" where
  "firstWordWidthOf column blockElement \<equiv>
     measureFirstWord column (findFirstTextNode [] (ElementNode blockElement))"

text \<open>
  The pattern in the words of the specification: optional leading whitespace, then one
  or more non-whitespace characters, then one or more whitespace characters. A leading
  match of a text is the longest prefix of that shape.
\<close>

definition matchesFirstWordPattern :: "jsstring \<Rightarrow> bool" where
  "matchesFirstWordPattern m \<longleftrightarrow>
     (\<exists>a b c. m = a @ b @ c \<and> list_all isWhiteSpace a \<and>
        b \<noteq> [] \<and> list_all (\<lambda>x. \<not> isWhiteSpace x) b \<and>
        c \<noteq> [] \<and> list_all isWhiteSpace c)"

definition isLeadingMatch :: "jsstring \<Rightarrow> jsstring \<Rightarrow> bool" where
  "isLeadingMatch text m \<longleftrightarrow>
     prefix m text \<and> matchesFirstWordPattern m \<and>
     (\<forall>m'. prefix m' text \<and> matchesFirstWordPattern m' \<longrightarrow> length m' \<le> length m)"

text \<open>The diagnostic entries of a node context; without \<open>pluginProps\<close> there are none.\<close>

definition diagnostic :: "nodeContext \<Rightarrow> string \<Rightarrow> prop_value option" where
  "diagnostic nodeContext key =
     (case pluginProps nodeContext of None \<Rightarrow> None | Some props \<Rightarrow> props key)"

subsection \<open>A two-line paragraph\<close>

text \<open>
  The block \<open><p>Hello world, this wraps.</p>\<close>, laid out on two lines: the range over
  the first word is 40 pixels wide, and the text node has one rectangle per line.
\<close>

definition helloBlock :: element where
  "helloBlock = Element ''p'' [] [] [TextNode (js ''Hello world, this wraps.'')]"

definition twoLineLayout :: "range \<Rightarrow> rect list" where
  "twoLineLayout r =
     (case r of
        TextRange p s e \<Rightarrow> [\<lparr>top = 0, width = 40\<rparr>]
      | NodeRange p \<Rightarrow> [\<lparr>top = 2 / 10, width = 100\<rparr>, \<lparr>top = 196 / 10, width = 60\<rparr>])"

definition twoLineColumn :: column where
  "twoLineColumn = \<lparr>clientLayout = \<lparr>getRangeClientRects = twoLineLayout\<rparr>\<rparr>"

definition helloContext :: nodeContext where
  "helloContext =
     \<lparr>viewNode = Some helloBlock, inline = False, fragmentIndex = 1,
      inheritedProps = Some [HANGING_INDENT_PROP \<mapsto> PStr (js ''first-word'')],
      pluginProps = None\<rparr>"

text \<open>The same paragraph on one line: both rectangles of the text node round to 0.\<close>

definition oneLineLayout :: "range \<Rightarrow> rect list" where
  "oneLineLayout r =
     (case r of
        TextRange p s e \<Rightarrow> [\<lparr>top = 0, width = 40\<rparr>]
      | NodeRange p \<Rightarrow> [\<lparr>top = 2 / 10, width = 100\<rparr>, \<lparr>top = 4 / 10, width = 60\<rparr>])"

definition oneLineColumn :: column where
  "oneLineColumn = \<lparr>clientLayout = \<lparr>getRangeClientRects = oneLineLayout\<rparr>\<rparr>"

text \<open>
  A paragraph of one word with no whitespace after it, and a column whose range over the
  first word has no rectangle while the text node still spans two lines.
\<close>

definition oneWordBlock :: element where
  "oneWordBlock = Element ''p'' [] [] [TextNode (js ''Hello'')]"

definition zeroWidthLayout :: "range \<Rightarrow> rect list" where
  "zeroWidthLayout r =
     (case r of
        TextRange p s e \<Rightarrow> []
      | NodeRange p \<Rightarrow> [\<lparr>top = 0, width = 100\<rparr>, \<lparr>top = 20, width = 60\<rparr>])"

definition zeroWidthColumn :: column where
  "zeroWidthColumn = \<lparr>clientLayout = \<lparr>getRangeClientRects = zeroWidthLayout\<rparr>\<rparr>"

text \<open>
  A paragraph whose first text node is whitespace only and whose first word sits in a
  nested element, with whitespace before it and two spaces after it. The range over the
  match has two rectangles.
\<close>

definition nestedBlock :: element where
  "nestedBlock =
     Element ''p'' [] []
       [TextNode (js ''  ''),
        ElementNode (Element ''b'' [] [] [TextNode (js '' Shalom  olam'')]),
        TextNode (js '' and more'')]"

definition nestedLayout :: "range \<Rightarrow> rect list" where
  "nestedLayout r =
     (if r = TextRange [1, 0] 0 9 then [\<lparr>top = 0, width = 25\<rparr>, \<lparr>top = 0, width = 5\<rparr>]
      else if r = NodeRange [1, 0] then [\<lparr>top = 0, width = 80\<rparr>]
      else if r = NodeRange [2] then [\<lparr>top = 0, width = 10\<rparr>, \<lparr>top = 18, width = 50\<rparr>]
      else [])"

definition nestedColumn :: column where
  "nestedColumn = \<lparr>clientLayout = \<lparr>getRangeClientRects = nestedLayout\<rparr>\<rparr>"

subsection \<open>CSS lengths\<close>

text \<open>
  The plugin writes lengths as CSS text (\<open>0\<close>, \<open>1.5rlh\<close>, \<open>1px\<close>) and leaves their
  resolution to the host. To say what such a text denotes, \<open>parseLength\<close> reads a
  decimal number and a unit, and \<open>usedLength\<close> resolves the units the way CSS Values
  and Units defines them: \<open>lh\<close> is the line height of the element itself, \<open>rlh\<close> the
  line height of the root element. The spacer has \<open>line-height: inherit\<close>, so its own
  line height is that of the block.
\<close>

datatype css_unit = Px | Lh | Rlh | NoUnit

definition isDigit :: "char \<Rightarrow> bool" where
  "isDigit c \<longleftrightarrow> 48 \<le> (of_char c :: nat) \<and> (of_char c :: nat) \<le> 57"

definition digitsValue :: "string \<Rightarrow> nat" where
  "digitsValue ds = foldl (\<lambda>n c. 10 * n + (of_char c - 48)) 0 ds"

definition parseUnit :: "string \<Rightarrow> css_unit option" where
  "parseUnit u =
     (if u = [] then Some NoUnit
      else if u = ''px'' then Some Px
      else if u = ''lh'' then Some Lh
      else if u = ''rlh'' then Some Rlh
      else None)"

definition parseLength :: "string \<Rightarrow> (real \<times> css_unit) option" where
  "parseLength s =
     (let whole = takeWhile isDigit s;
          afterWhole = dropWhile isDigit s;
          fraction = (if afterWhole \<noteq> [] \<and> hd afterWhole = CHR ''.''
                      then takeWhile isDigit (tl afterWhole) else []);
          unitText = (if afterWhole \<noteq> [] \<and> hd afterWhole = CHR ''.''
                      then dropWhile isDigit (tl afterWhole) else afterWhole)
      in if whole = [] \<and> fraction = [] then None
         else map_option
                (\<lambda>u. (real (digitsValue whole) +
                        real (digitsValue fraction) / 10 ^ length fraction, u))
                (parseUnit unitText))"


section \<open>Auxiliary facts\<close>

subsection \<open>The matcher on the pattern of the source\<close>

lemma firstSome_all_None: "(\<And>k. k \<in> set ks \<Longrightarrow> f k = None) \<Longrightarrow> firstSome f ks = None"
  by (induction ks) auto

lemma firstSome_rev_upt:
  assumes "\<And>k. lo \<le> k \<Longrightarrow> k < n \<Longrightarrow> f k = None"
  shows "firstSome f (rev [lo..<Suc n]) = (if lo \<le> n then f n else None)"
proof (cases "lo \<le> n")
  case True
  have rest: "firstSome f (rev [lo..<n]) = None"
    using assms by (intro firstSome_all_None) auto
  from True have "rev [lo..<Suc n] = n # rev [lo..<n]" by simp
  then show ?thesis using True rest by (simp split: option.split)
next
  case False
  then show ?thesis by simp
qed

lemma firstSome_rev_upt_Some:
  assumes "lo \<le> n" and "f n = Some r"
  shows "firstSome f (rev [lo..<Suc n]) = Some r"
proof -
  from assms(1) have "rev [lo..<Suc n] = n # rev [lo..<n]" by simp
  then show ?thesis using assms(2) by simp
qed

lemma takeWhile_drop_Nil:
  assumes "k < length (takeWhile P s)" and "\<And>x. P x \<Longrightarrow> \<not> Q x"
  shows "takeWhile Q (drop k s) = []"
proof -
  from assms(1) have k: "k < length s"
    using length_takeWhile_le [of P s] by simp
  from assms(1) have "P (s ! k)"
    by (metis nth_mem set_takeWhileD takeWhile_nth)
  with assms(2) have "\<not> Q (s ! k)" by simp
  moreover from k have "drop k s = s ! k # drop (Suc k) s"
    by (simp add: Cons_nth_drop_Suc)
  ultimately show ?thesis by simp
qed

lemma matchHere_Cons:
  "matchHere ((cl, q) # ts) s =
     firstSome (\<lambda>k. map_option (\<lambda>r. k + r) (matchHere ts (drop k s)))
       (rev [minCount q ..< Suc (length (takeWhile (inClass cl) s))])"
  by simp

lemma inClass_Space: "inClass Space = isWhiteSpace"
  by (rule ext) simp

lemma inClass_NonSpace: "inClass NonSpace = (\<lambda>c. \<not> isWhiteSpace c)"
  by (rule ext) simp

lemma matchHere_space_plus:
  "matchHere [(Space, OneOrMore)] s =
     (if takeWhile isWhiteSpace s = [] then None else Some (length (takeWhile isWhiteSpace s)))"
proof -
  let ?n = "length (takeWhile isWhiteSpace s)"
  let ?f = "\<lambda>k. map_option (\<lambda>r. k + r) (matchHere [] (drop k s))"
  have unfold: "matchHere [(Space, OneOrMore)] s = firstSome ?f (rev [Suc 0..<Suc ?n])"
    unfolding matchHere_Cons inClass_Space by simp
  show ?thesis
  proof (cases "takeWhile isWhiteSpace s = []")
    case True
    then show ?thesis unfolding unfold by simp
  next
    case False
    then have "Suc 0 \<le> ?n" by (simp add: Suc_le_eq)
    moreover have "?f ?n = Some ?n" by simp
    ultimately have "firstSome ?f (rev [Suc 0..<Suc ?n]) = Some ?n"
      by (rule firstSome_rev_upt_Some)
    with False show ?thesis unfolding unfold by simp
  qed
qed

lemma matchHere_word_space:
  "matchHere [(NonSpace, OneOrMore), (Space, OneOrMore)] s =
     (let b = takeWhile (\<lambda>c. \<not> isWhiteSpace c) s;
          c = takeWhile isWhiteSpace (dropWhile (\<lambda>c. \<not> isWhiteSpace c) s)
      in if b = [] \<or> c = [] then None else Some (length b + length c))"
proof -
  let ?P = "\<lambda>c. \<not> isWhiteSpace c"
  let ?n = "length (takeWhile ?P s)"
  let ?f = "\<lambda>k. map_option (\<lambda>r. k + r) (matchHere [(Space, OneOrMore)] (drop k s))"
  have none: "?f k = None" if "k < ?n" for k
  proof -
    have "takeWhile isWhiteSpace (drop k s) = []"
      using that by (rule takeWhile_drop_Nil) simp
    then show ?thesis unfolding matchHere_space_plus by simp
  qed
  have "matchHere [(NonSpace, OneOrMore), (Space, OneOrMore)] s = firstSome ?f (rev [Suc 0..<Suc ?n])"
    unfolding matchHere_Cons [of NonSpace] inClass_NonSpace by simp
  also have "\<dots> = (if Suc 0 \<le> ?n then ?f ?n else None)"
    by (rule firstSome_rev_upt) (rule none)
  also have "\<dots> = (let b = takeWhile ?P s; c = takeWhile isWhiteSpace (dropWhile ?P s)
      in if b = [] \<or> c = [] then None else Some (length b + length c))"
    unfolding matchHere_space_plus
    by (simp add: dropWhile_eq_drop [symmetric] Let_def Suc_le_eq)
  finally show ?thesis .
qed

lemma matchHere_FIRST_WORD_REGEX:
  "matchHere FIRST_WORD_REGEX s =
     (let a = takeWhile isWhiteSpace s;
          s1 = dropWhile isWhiteSpace s;
          b = takeWhile (\<lambda>c. \<not> isWhiteSpace c) s1;
          c = takeWhile isWhiteSpace (dropWhile (\<lambda>c. \<not> isWhiteSpace c) s1)
      in if b = [] \<or> c = [] then None else Some (length a + (length b + length c)))"
proof -
  let ?P = "\<lambda>c. \<not> isWhiteSpace c"
  let ?n = "length (takeWhile isWhiteSpace s)"
  let ?ts = "[(NonSpace, OneOrMore), (Space, OneOrMore)]"
  let ?f = "\<lambda>k. map_option (\<lambda>r. k + r) (matchHere ?ts (drop k s))"
  have none: "?f k = None" if "k < ?n" for k
  proof -
    have "takeWhile ?P (drop k s) = []"
      using that by (rule takeWhile_drop_Nil) simp
    then show ?thesis unfolding matchHere_word_space by simp
  qed
  have "matchHere FIRST_WORD_REGEX s = firstSome ?f (rev [0..<Suc ?n])"
    unfolding FIRST_WORD_REGEX_def matchHere_Cons [of Space] inClass_Space by simp
  also have "\<dots> = (if 0 \<le> ?n then ?f ?n else None)"
    by (rule firstSome_rev_upt) (rule none)
  also have "\<dots> = ?f ?n" by simp
  also have "\<dots> = (let a = takeWhile isWhiteSpace s;
          s1 = dropWhile isWhiteSpace s;
          b = takeWhile ?P s1;
          c = takeWhile isWhiteSpace (dropWhile ?P s1)
      in if b = [] \<or> c = [] then None else Some (length a + (length b + length c)))"
    unfolding matchHere_word_space
    by (simp add: dropWhile_eq_drop [symmetric] Let_def)
  finally show ?thesis .
qed

lemma take_prefix_length: "s = xs @ rest \<Longrightarrow> n = length xs \<Longrightarrow> take n s = xs"
  by simp

lemma take_matched_length:
  "take (length (takeWhile P s) + (length (takeWhile Q (dropWhile P s)) +
         length (takeWhile P (dropWhile Q (dropWhile P s))))) s =
     takeWhile P s @ takeWhile Q (dropWhile P s) @ takeWhile P (dropWhile Q (dropWhile P s))"
proof (rule take_prefix_length)
  show "s = (takeWhile P s @ takeWhile Q (dropWhile P s) @
             takeWhile P (dropWhile Q (dropWhile P s))) @
            dropWhile P (dropWhile Q (dropWhile P s))"
    by (metis append.assoc takeWhile_dropWhile_id)
qed simp

lemma matchFirstWord_closed:
  "matchFirstWord text =
     (let a = takeWhile isWhiteSpace text;
          s1 = dropWhile isWhiteSpace text;
          b = takeWhile (\<lambda>c. \<not> isWhiteSpace c) s1;
          c = takeWhile isWhiteSpace (dropWhile (\<lambda>c. \<not> isWhiteSpace c) s1)
      in if b = [] \<or> c = [] then None else Some (a @ b @ c))"
  by (simp add: matchFirstWord_def matchHere_FIRST_WORD_REGEX Let_def take_matched_length)

lemma pattern_prefix_decomp:
  assumes "prefix m text" and "matchesFirstWordPattern m"
  shows "\<exists>c'. c' \<noteq> [] \<and>
     m = takeWhile isWhiteSpace text @
         takeWhile (\<lambda>c. \<not> isWhiteSpace c) (dropWhile isWhiteSpace text) @ c' \<and>
     takeWhile (\<lambda>c. \<not> isWhiteSpace c) (dropWhile isWhiteSpace text) \<noteq> [] \<and>
     prefix c' (takeWhile isWhiteSpace
       (dropWhile (\<lambda>c. \<not> isWhiteSpace c) (dropWhile isWhiteSpace text)))"
proof -
  let ?N = "\<lambda>c. \<not> isWhiteSpace c"
  from assms(2) obtain a b c where m: "m = a @ b @ c"
    and a: "\<forall>x\<in>set a. isWhiteSpace x"
    and b: "b \<noteq> []" "\<forall>x\<in>set b. ?N x"
    and c: "c \<noteq> []" "\<forall>x\<in>set c. isWhiteSpace x"
    by (auto simp: matchesFirstWordPattern_def list_all_iff)
  from assms(1) obtain rest where tx: "text = m @ rest" by (auto simp: prefix_def)
  from b obtain x xs where bx: "b = x # xs" and x: "?N x" by (cases b) auto
  from c obtain y ys where cy: "c = y # ys" and y: "isWhiteSpace y" by (cases c) auto
  have text1: "text = a @ (x # xs @ c @ rest)" by (simp add: tx m bx)
  have ta: "takeWhile isWhiteSpace text = a"
    unfolding text1 using a x by (simp add: takeWhile_append2)
  have da: "dropWhile isWhiteSpace text = b @ (y # ys @ rest)"
    unfolding text1 using a x by (simp add: dropWhile_append2 bx cy)
  have tb: "takeWhile ?N (dropWhile isWhiteSpace text) = b"
    unfolding da using b y by (simp add: takeWhile_append2)
  have db: "dropWhile ?N (dropWhile isWhiteSpace text) = c @ rest"
    unfolding da using b y by (simp add: dropWhile_append2 cy)
  have tc: "takeWhile isWhiteSpace (dropWhile ?N (dropWhile isWhiteSpace text)) =
      c @ takeWhile isWhiteSpace rest"
    unfolding db using c by (simp add: takeWhile_append2)
  show ?thesis
    unfolding ta tb tc using m b c by (intro exI [of _ c]) simp
qed

lemma matchFirstWord_None_iff:
  "matchFirstWord text = None \<longleftrightarrow> \<not> (\<exists>m. prefix m text \<and> matchesFirstWordPattern m)"
proof
  assume none: "matchFirstWord text = None"
  show "\<not> (\<exists>m. prefix m text \<and> matchesFirstWordPattern m)"
  proof
    assume "\<exists>m. prefix m text \<and> matchesFirstWordPattern m"
    then obtain m where "prefix m text" "matchesFirstWordPattern m" by blast
    from pattern_prefix_decomp [OF this] none show False
      by (auto simp: matchFirstWord_closed Let_def split: if_splits)
  qed
next
  let ?N = "\<lambda>c. \<not> isWhiteSpace c"
  let ?a = "takeWhile isWhiteSpace text" and ?s1 = "dropWhile isWhiteSpace text"
  let ?b = "takeWhile ?N ?s1" and ?s2 = "dropWhile ?N ?s1"
  let ?c = "takeWhile isWhiteSpace ?s2"
  assume no: "\<not> (\<exists>m. prefix m text \<and> matchesFirstWordPattern m)"
  show "matchFirstWord text = None"
  proof (rule ccontr)
    assume "matchFirstWord text \<noteq> None"
    then have bc: "?b \<noteq> []" "?c \<noteq> []"
      by (auto simp: matchFirstWord_closed Let_def split: if_splits)
    have "text = (?a @ ?b @ ?c) @ dropWhile isWhiteSpace ?s2"
      by (metis append.assoc takeWhile_dropWhile_id)
    then have "prefix (?a @ ?b @ ?c) text" by (metis prefixI)
    moreover have "matchesFirstWordPattern (?a @ ?b @ ?c)"
      unfolding matchesFirstWordPattern_def list_all_iff
      using bc by (intro exI [of _ ?a] exI [of _ ?b] exI [of _ ?c]) (auto dest: set_takeWhileD)
    ultimately show False using no by blast
  qed
qed

lemma matchFirstWord_Some_leading:
  assumes "matchFirstWord text = Some m"
  shows "isLeadingMatch text m"
proof -
  let ?N = "\<lambda>c. \<not> isWhiteSpace c"
  let ?a = "takeWhile isWhiteSpace text" and ?s1 = "dropWhile isWhiteSpace text"
  let ?b = "takeWhile ?N ?s1" and ?s2 = "dropWhile ?N ?s1"
  let ?c = "takeWhile isWhiteSpace ?s2"
  from assms have bc: "?b \<noteq> []" "?c \<noteq> []" and m: "m = ?a @ ?b @ ?c"
    by (auto simp: matchFirstWord_closed Let_def split: if_splits)
  have "text = (?a @ ?b @ ?c) @ dropWhile isWhiteSpace ?s2"
    by (metis append.assoc takeWhile_dropWhile_id)
  then have p: "prefix m text" unfolding m by (metis prefixI)
  have pat: "matchesFirstWordPattern m"
    unfolding matchesFirstWordPattern_def list_all_iff m
    using bc by (intro exI [of _ ?a] exI [of _ ?b] exI [of _ ?c]) (auto dest: set_takeWhileD)
  have "length m' \<le> length m" if "prefix m' text" "matchesFirstWordPattern m'" for m'
  proof -
    from pattern_prefix_decomp [OF that] obtain c' where
      m': "m' = ?a @ ?b @ c'" and c': "prefix c' ?c" by blast
    from c' have "length c' \<le> length ?c" by (rule prefix_length_le)
    then show ?thesis unfolding m m' by simp
  qed
  with p pat show ?thesis by (simp add: isLeadingMatch_def)
qed

lemma isLeadingMatch_matchFirstWord:
  assumes "isLeadingMatch text m"
  shows "matchFirstWord text = Some m"
proof -
  from assms have p: "prefix m text" and pat: "matchesFirstWordPattern m"
    and mx: "\<And>m'. prefix m' text \<Longrightarrow> matchesFirstWordPattern m' \<Longrightarrow> length m' \<le> length m"
    by (auto simp: isLeadingMatch_def)
  from p pat have "matchFirstWord text \<noteq> None"
    by (auto simp: matchFirstWord_None_iff)
  then obtain m0 where m0: "matchFirstWord text = Some m0" by auto
  from matchFirstWord_Some_leading [OF m0] have
    p0: "prefix m0 text" and l0: "length m \<le> length m0" and "matchesFirstWordPattern m0"
    using p pat by (auto simp: isLeadingMatch_def)
  with mx have "length m0 = length m" by (simp add: le_antisym)
  with p p0 have "m0 = m"
    by (metis prefix_length_prefix prefix_order.antisym order_refl)
  with m0 show ?thesis by simp
qed

subsection \<open>The traversals\<close>

lemma trim_Nil_iff: "trim s = [] \<longleftrightarrow> (\<forall>c\<in>set s. isWhiteSpace c)"
proof
  assume "trim s = []"
  then have all: "\<forall>c\<in>set (dropWhile isWhiteSpace s). isWhiteSpace c"
    by (simp add: trim_def dropWhile_eq_Nil_conv)
  have "dropWhile isWhiteSpace s = []"
  proof (rule ccontr)
    assume ne: "dropWhile isWhiteSpace s \<noteq> []"
    then have "\<not> isWhiteSpace (hd (dropWhile isWhiteSpace s))" by (rule hd_dropWhile)
    moreover from ne have "hd (dropWhile isWhiteSpace s) \<in> set (dropWhile isWhiteSpace s)"
      by (rule hd_in_set)
    ultimately show False using all by blast
  qed
  then show "\<forall>c\<in>set s. isWhiteSpace c" by (simp add: dropWhile_eq_Nil_conv)
next
  assume "\<forall>c\<in>set s. isWhiteSpace c"
  then have d: "dropWhile isWhiteSpace s = []" by simp
  show "trim s = []" by (simp only: trim_def d rev.simps dropWhile.simps)
qed

lemma trim_nonempty_iff: "trim s \<noteq> [] \<longleftrightarrow> list_ex (\<lambda>c. \<not> isWhiteSpace c) s"
  by (simp add: trim_Nil_iff list_ex_iff)

lemma collectTextNodes_filter:
  "collectTextNodes p n acc = acc @ filter isNonEmptyText (textNodesOf p n)"
  "collectTextNodes_loop p i cs acc = acc @ filter isNonEmptyText (textNodesOf_children p i cs)"
  by (induction p n acc and p i cs acc rule: collectTextNodes_collectTextNodes_loop.induct)
     (simp_all add: trim_nonempty_iff isNonEmptyText_def)

lemma findFirstTextNode_filter:
  "findFirstTextNode p n =
     (case filter isNonEmptyText (textNodesOf p n) of [] \<Rightarrow> None | r # _ \<Rightarrow> Some r)"
  "findFirstTextNode_loop p i cs =
     (case filter isNonEmptyText (textNodesOf_children p i cs) of [] \<Rightarrow> None | r # _ \<Rightarrow> Some r)"
  by (induction p n and p i cs rule: findFirstTextNode_findFirstTextNode_loop.induct)
     (auto simp: trim_nonempty_iff isNonEmptyText_def split: list.splits option.splits)

lemma collectTextNodes_block:
  "collectTextNodes [] (ElementNode blockElement) [] = nonEmptyTextNodes blockElement"
  by (simp add: collectTextNodes_filter nonEmptyTextNodes_def)

lemma findFirstTextNode_block:
  "findFirstTextNode [] (ElementNode blockElement) =
     (case nonEmptyTextNodes blockElement of [] \<Rightarrow> None | r # _ \<Rightarrow> Some r)"
  by (simp add: findFirstTextNode_filter nonEmptyTextNodes_def)

lemma fold_add_width:
  "fold (\<lambda>rect acc. acc + width rect) rects a = a + sum_list (map width rects)"
  by (induction rects arbitrary: a) simp_all

lemma measureFirstWord_Some:
  "measureFirstWord column (Some (p, text)) =
     (case matchFirstWord text of
        None \<Rightarrow> 0
      | Some m \<Rightarrow>
          sum_list (map width
            (getRangeClientRects (clientLayout column) (TextRange p 0 (length m)))))"
  by (simp add: measureFirstWord_def fold_add_width split: option.split)

subsection \<open>The post-layout hook\<close>

lemma insertMarkers_eq:
  "insertMarkers b W =
     Element (nodeName b) (className b) (style b)
       (ElementNode floatSpacer # ElementNode (floatIndent W) # childNodes b)"
  by (cases "childNodes b = []")
     (simp_all add: insertMarkers_def insertBefore_def setChildNodes_def)

lemma fold_setAdd:
  "distinct acc \<Longrightarrow>
     distinct (fold (\<lambda>r. setAdd (g r)) rs acc) \<and>
     set (fold (\<lambda>r. setAdd (g r)) rs acc) = set acc \<union> g ` set rs"
  by (induction rs arbitrary: acc) (auto simp: setAdd_def)

lemma fold_fold_setAdd:
  "distinct acc \<Longrightarrow>
     distinct (fold (\<lambda>t. fold (\<lambda>r. setAdd (g r)) (h t)) ts acc) \<and>
     set (fold (\<lambda>t. fold (\<lambda>r. setAdd (g r)) (h t)) ts acc) =
       set acc \<union> (\<Union>t \<in> set ts. g ` set (h t))"
proof (induction ts arbitrary: acc)
  case Nil
  then show ?case by simp
next
  case (Cons t ts)
  from fold_setAdd [OF Cons.prems, of g "h t"]
  have d: "distinct (fold (\<lambda>r. setAdd (g r)) (h t) acc)"
    and s: "set (fold (\<lambda>r. setAdd (g r)) (h t) acc) = set acc \<union> g ` set (h t)"
    by simp_all
  from Cons.IH [OF d] s show ?case by auto
qed

lemma length_collectLineYPositions:
  "length (collectLineYPositions column (collectTextNodes [] (ElementNode b) [])) =
     card (observedTops column b)"
proof -
  let ?g = "\<lambda>rect. round (top rect)"
  let ?h = "\<lambda>textNode. getRangeClientRects (clientLayout column) (NodeRange (fst textNode))"
  let ?ts = "collectTextNodes [] (ElementNode b) []"
  have "distinct (collectLineYPositions column ?ts) \<and>
        set (collectLineYPositions column ?ts) = observedTops column b"
    using fold_fold_setAdd [of "[]" ?g ?h ?ts]
    by (simp add: collectLineYPositions_def observedTops_def collectTextNodes_block)
  then show ?thesis by (metis distinct_card)
qed

lemma first_word_truthy: "truthy (PStr (js ''first-word''))"
  by (simp add: js_def)

lemma measureFirstWord_None: "measureFirstWord column None = 0"
  by (simp add: measureFirstWord_def)

lemma post_apply:
  assumes "passesGate nc cps" and "viewNode nc = Some b"
    and "firstWordWidthOf col b \<noteq> 0" and "2 \<le> card (observedTops col b)"
  shows "postLayoutBlockHangingIndent nc cps col =
     nc\<lparr>viewNode := Some (insertMarkers b (firstWordWidthOf col b)),
        pluginProps := Some (writeDiagnostics (pluginProps nc) (firstWordWidthOf col b)
                               (card (observedTops col b)))\<rparr>"
proof -
  have "findFirstTextNode [] (ElementNode b) \<noteq> None"
  proof
    assume "findFirstTextNode [] (ElementNode b) = None"
    then have "firstWordWidthOf col b = 0" by (simp add: measureFirstWord_None)
    with assms(3) show False by simp
  qed
  with assms show ?thesis
    by (auto simp: postLayoutBlockHangingIndent_def passesGate_def Let_def
          length_collectLineYPositions first_word_truthy simp del: truthy.simps)
qed

lemma post_changed:
  assumes "postLayoutBlockHangingIndent nc cps col \<noteq> nc"
  shows "passesGate nc cps \<and>
     (\<exists>b. viewNode nc = Some b \<and> firstWordWidthOf col b \<noteq> 0 \<and> 2 \<le> card (observedTops col b))"
  using assms
  by (auto simp: postLayoutBlockHangingIndent_def passesGate_def Let_def
        length_collectLineYPositions split: if_splits option.splits)

subsection \<open>The two-line paragraph, evaluated\<close>

lemma hello_text_nonempty: "0 < length (trim (js ''Hello world, this wraps.''))"
  by (simp add: trim_def js_def isWhiteSpace_def)

lemma hello_first:
  "findFirstTextNode [] (ElementNode helloBlock) = Some ([0], js ''Hello world, this wraps.'')"
  using hello_text_nonempty by (simp add: helloBlock_def)

lemma hello_collect:
  "collectTextNodes [] (ElementNode helloBlock) [] = [([0], js ''Hello world, this wraps.'')]"
  using hello_text_nonempty by (simp add: helloBlock_def)

lemma hello_match: "matchFirstWord (js ''Hello world, this wraps.'') = Some (js ''Hello '')"
  by (simp add: matchFirstWord_def matchHere_FIRST_WORD_REGEX js_def isWhiteSpace_def)

lemma hello_width: "firstWordWidthOf twoLineColumn helloBlock = 40"
  by (simp add: hello_first hello_match measureFirstWord_def twoLineColumn_def twoLineLayout_def)

lemma hello_tops: "observedTops twoLineColumn helloBlock = {0, 20}"
  by (simp add: observedTops_def collectTextNodes_block [symmetric] hello_collect
        twoLineColumn_def twoLineLayout_def round_def)

lemma hello_gate: "passesGate helloContext [helloContext]"
  by (simp add: passesGate_def helloContext_def)

lemma hello_view: "viewNode helloContext = Some helloBlock"
  by (simp add: helloContext_def)

lemma hello_children: "childNodes helloBlock = [TextNode (js ''Hello world, this wraps.'')]"
  by (simp add: helloBlock_def)

lemma hello_card: "card (observedTops twoLineColumn helloBlock) = 2"
  by (simp add: hello_tops)

lemma hello_applied:
  "postLayoutBlockHangingIndent helloContext [helloContext] twoLineColumn =
     helloContext\<lparr>viewNode := Some (insertMarkers helloBlock 40),
        pluginProps := Some (writeDiagnostics None 40 2)\<rparr>"
proof -
  have w: "firstWordWidthOf twoLineColumn helloBlock \<noteq> 0" by (simp add: hello_width)
  have n: "2 \<le> card (observedTops twoLineColumn helloBlock)" by (simp add: hello_card)
  have pp: "pluginProps helloContext = None" by (simp add: helloContext_def)
  show ?thesis
    using post_apply [OF hello_gate hello_view w n]
    by (simp only: hello_width hello_card pp)
qed

lemma hello_changed:
  "postLayoutBlockHangingIndent helloContext [helloContext] twoLineColumn \<noteq> helloContext"
proof
  assume "postLayoutBlockHangingIndent helloContext [helloContext] twoLineColumn = helloContext"
  then have "pluginProps (postLayoutBlockHangingIndent helloContext [helloContext] twoLineColumn) =
    pluginProps helloContext" by simp
  moreover have "pluginProps helloContext = None" by (simp add: helloContext_def)
  ultimately show False by (simp add: hello_applied)
qed

lemma one_line_tops: "observedTops oneLineColumn helloBlock = {0}"
  by (simp add: observedTops_def collectTextNodes_block [symmetric] hello_collect
        oneLineColumn_def oneLineLayout_def round_def)

lemma hello_one_line_unchanged:
  "postLayoutBlockHangingIndent helloContext [helloContext] oneLineColumn = helloContext"
proof (rule ccontr)
  assume "postLayoutBlockHangingIndent helloContext [helloContext] oneLineColumn \<noteq> helloContext"
  from post_changed [OF this] show False
    by (simp add: hello_view one_line_tops)
qed

text \<open>The paragraph after one application, measured again by the same column.\<close>

lemma once_block:
  "insertMarkers helloBlock 40 =
     Element ''p'' [] []
       [ElementNode floatSpacer, ElementNode (floatIndent 40),
        TextNode (js ''Hello world, this wraps.'')]"
  by (simp add: insertMarkers_eq helloBlock_def)

lemma once_first:
  "findFirstTextNode [] (ElementNode (insertMarkers helloBlock 40)) =
     Some ([2], js ''Hello world, this wraps.'')"
  using hello_text_nonempty
  by (simp add: once_block floatSpacer_def floatIndent_def numeral_2_eq_2)

lemma once_collect:
  "collectTextNodes [] (ElementNode (insertMarkers helloBlock 40)) [] =
     [([2], js ''Hello world, this wraps.'')]"
  using hello_text_nonempty
  by (simp add: once_block floatSpacer_def floatIndent_def numeral_2_eq_2)

lemma once_width: "firstWordWidthOf twoLineColumn (insertMarkers helloBlock 40) = 40"
  by (simp add: once_first hello_match measureFirstWord_def twoLineColumn_def twoLineLayout_def)

lemma once_card: "card (observedTops twoLineColumn (insertMarkers helloBlock 40)) = 2"
  by (simp add: observedTops_def collectTextNodes_block [symmetric] once_collect
        twoLineColumn_def twoLineLayout_def round_def)

lemma once_gate:
  "passesGate (postLayoutBlockHangingIndent helloContext [helloContext] twoLineColumn)
     [helloContext]"
  by (simp add: hello_applied passesGate_def) (simp add: helloContext_def)

lemma hello_twice:
  "postLayoutBlockHangingIndent
     (postLayoutBlockHangingIndent helloContext [helloContext] twoLineColumn)
     [helloContext] twoLineColumn =
   helloContext
     \<lparr>viewNode := Some (insertMarkers (insertMarkers helloBlock 40) 40),
      pluginProps := Some (writeDiagnostics (Some (writeDiagnostics None 40 2)) 40 2)\<rparr>"
proof -
  let ?once = "postLayoutBlockHangingIndent helloContext [helloContext] twoLineColumn"
  have v: "viewNode ?once = Some (insertMarkers helloBlock 40)"
    by (simp add: hello_applied)
  have w: "firstWordWidthOf twoLineColumn (insertMarkers helloBlock 40) \<noteq> 0"
    by (simp add: once_width)
  have n: "2 \<le> card (observedTops twoLineColumn (insertMarkers helloBlock 40))"
    by (simp add: once_card)
  have pp: "pluginProps ?once = Some (writeDiagnostics None 40 2)"
    by (simp add: hello_applied)
  show ?thesis
    using post_apply [OF once_gate v w n]
    by (simp only: once_width once_card pp) (simp add: hello_applied)
qed

lemma hello_nonEmpty:
  "nonEmptyTextNodes helloBlock = [([0], js ''Hello world, this wraps.'')]"
  by (simp add: collectTextNodes_block [symmetric] hello_collect)

lemma hello_leading: "isLeadingMatch (js ''Hello world, this wraps.'') (js ''Hello '')"
  using hello_match by (rule matchFirstWord_Some_leading)

lemma one_word_nonEmpty: "nonEmptyTextNodes oneWordBlock = [([0], js ''Hello'')]"
  by (simp add: nonEmptyTextNodes_def oneWordBlock_def isNonEmptyText_def js_def isWhiteSpace_def)

lemma one_word_no_match:
  "\<not> (\<exists>m. prefix m (js ''Hello'') \<and> matchesFirstWordPattern m)"
proof -
  have "matchFirstWord (js ''Hello'') = None"
    by (simp add: matchFirstWord_closed js_def isWhiteSpace_def)
  then show ?thesis unfolding matchFirstWord_None_iff .
qed

lemma zero_width: "firstWordWidthOf zeroWidthColumn helloBlock = 0"
  by (simp add: hello_first hello_match measureFirstWord_def zeroWidthColumn_def
        zeroWidthLayout_def)

lemma zero_width_card: "card (observedTops zeroWidthColumn helloBlock) = 2"
  by (simp add: observedTops_def hello_nonEmpty zeroWidthColumn_def zeroWidthLayout_def)

lemma nested_nonEmpty:
  "nonEmptyTextNodes nestedBlock = [([1, 0], js '' Shalom  olam''), ([2], js '' and more'')]"
  by (simp add: nonEmptyTextNodes_def nestedBlock_def isNonEmptyText_def js_def isWhiteSpace_def)

lemma nested_match: "matchFirstWord (js '' Shalom  olam'') = Some (js '' Shalom  '')"
  by (simp add: matchFirstWord_closed js_def isWhiteSpace_def)

lemma nested_leading: "isLeadingMatch (js '' Shalom  olam'') (js '' Shalom  '')"
  using nested_match by (rule matchFirstWord_Some_leading)

lemma nested_rects:
  "getRangeClientRects (clientLayout nestedColumn) (TextRange [1, 0] 0 9) =
     [\<lparr>top = 0, width = 25\<rparr>, \<lparr>top = 0, width = 5\<rparr>]"
  by (simp add: nestedColumn_def nestedLayout_def)


lemma parse_zero: "parseLength ''0'' = Some (0, NoUnit)"
  by (simp add: parseLength_def parseUnit_def isDigit_def digitsValue_def)

lemma parse_px: "parseLength ''1px'' = Some (1, Px)"
  by (simp add: parseLength_def parseUnit_def isDigit_def digitsValue_def)

lemma parse_lh: "parseLength ''2lh'' = Some (2, Lh)"
  by (simp add: parseLength_def parseUnit_def isDigit_def digitsValue_def)


lemma nested_gate: "passesGate (helloContext\<lparr>viewNode := Some nestedBlock\<rparr>) [helloContext]"
  by (simp add: passesGate_def helloContext_def)

lemma nested_tops: "observedTops nestedColumn nestedBlock = {0, 18}"
  by (auto simp: observedTops_def nested_nonEmpty nestedColumn_def nestedLayout_def)

lemma nested_card: "card (observedTops nestedColumn nestedBlock) = 2"
  by (simp add: nested_tops)

section \<open>The claims\<close>

text \<open>
  C1. For a block that passes the eligibility gate, whose measured first-word width is
  \<open>W > 0\<close> and whose rectangles have at least two distinct rounded tops, the hook puts
  exactly two markers in front of the block's former children, the spacer and then the
  pusher; the width style of the pusher is \<open>W\<close> pixels; the diagnostics hold applied = 1,
  width = \<open>W\<close> and lineCount = the number of distinct rounded tops.
\<close>

theorem applied_result:
  assumes "passesGate nodeContext checkPoints"
    and "viewNode nodeContext = Some blockElement"
    and "firstWordWidthOf column blockElement = W" and "0 < W"
    and "2 \<le> card (observedTops column blockElement)"
  shows "\<exists>blockElement'.
     viewNode (postLayoutBlockHangingIndent nodeContext checkPoints column) = Some blockElement' \<and>
     childNodes blockElement' =
       ElementNode floatSpacer # ElementNode (floatIndent W) # childNodes blockElement \<and>
     className floatSpacer = ''vivliostyle-hanging-indent-spacer'' \<and>
     className (floatIndent W) = ''vivliostyle-hanging-indent-pusher'' \<and>
     map_of (style (floatIndent W)) ''width'' = Some (NumberPx W) \<and>
     diagnostic (postLayoutBlockHangingIndent nodeContext checkPoints column)
       ''torahWindow:applied'' = Some (PNum 1) \<and>
     diagnostic (postLayoutBlockHangingIndent nodeContext checkPoints column)
       ''torahWindow:width'' = Some (PNum W) \<and>
     diagnostic (postLayoutBlockHangingIndent nodeContext checkPoints column)
       ''torahWindow:lineCount'' = Some (PNum (real (card (observedTops column blockElement))))"
proof -
  from assms(3,4) have "firstWordWidthOf column blockElement \<noteq> 0" by simp
  from post_apply [OF assms(1,2) this assms(5)] assms(3)
  show ?thesis
    by (simp add: insertMarkers_eq diagnostic_def writeDiagnostics_def floatSpacer_def
          floatIndent_def)
qed

theorem applied_result_witness:
  "passesGate helloContext [helloContext] \<and> viewNode helloContext = Some helloBlock \<and>
   firstWordWidthOf twoLineColumn helloBlock = 40 \<and>
   card (observedTops twoLineColumn helloBlock) = 2 \<and>
   (\<exists>blockElement'.
     viewNode (postLayoutBlockHangingIndent helloContext [helloContext] twoLineColumn) =
       Some blockElement' \<and>
     childNodes blockElement' =
       [ElementNode floatSpacer, ElementNode (floatIndent 40),
        TextNode (js ''Hello world, this wraps.'')] \<and>
     diagnostic (postLayoutBlockHangingIndent helloContext [helloContext] twoLineColumn)
       ''torahWindow:lineCount'' = Some (PNum 2))"
proof -
  have v: "viewNode helloContext = Some helloBlock" by (simp add: helloContext_def)
  have c: "card (observedTops twoLineColumn helloBlock) = 2" by (simp add: hello_tops)
  then have c2: "2 \<le> card (observedTops twoLineColumn helloBlock)" by simp
  have w: "(0::real) < 40" by simp
  have cn: "childNodes helloBlock = [TextNode (js ''Hello world, this wraps.'')]"
    by (simp add: helloBlock_def)
  from applied_result [OF hello_gate v hello_width w c2] hello_gate v hello_width c
  show ?thesis by (auto simp: cn)
qed

text \<open>
  C5. When the fragment index exceeds 1 the hook changes nothing, whatever the content and
  the style value: the node context, with its view subtree and its property mappings,
  is returned as it was.
\<close>

theorem later_fragment_noop:
  "1 < fragmentIndex nodeContext \<Longrightarrow>
     postLayoutBlockHangingIndent nodeContext checkPoints column = nodeContext"
  by (simp add: postLayoutBlockHangingIndent_def)

theorem later_fragment_noop_witness:
  "1 < fragmentIndex (helloContext\<lparr>fragmentIndex := 2\<rparr>) \<and>
   postLayoutBlockHangingIndent (helloContext\<lparr>fragmentIndex := 2\<rparr>) [helloContext] twoLineColumn =
     helloContext\<lparr>fragmentIndex := 2\<rparr>"
  using later_fragment_noop [of "helloContext\<lparr>fragmentIndex := 2\<rparr>" "[helloContext]" twoLineColumn]
  by simp

text \<open>
  C4. When the inherited property mapping is absent, has no \<open>hanging-indent\<close> entry, or
  has one whose value is anything but the string \<open>"first-word"\<close>, the hook changes
  nothing: no marker is inserted and no diagnostic is written.
\<close>

theorem not_opted_in_noop:
  assumes "inheritedProps nodeContext = None \<or>
     (\<exists>inherited. inheritedProps nodeContext = Some inherited \<and>
        (inherited HANGING_INDENT_PROP = None \<or>
         (\<exists>v. inherited HANGING_INDENT_PROP = Some v \<and> v \<noteq> PStr (js ''first-word''))))"
  shows "postLayoutBlockHangingIndent nodeContext checkPoints column = nodeContext"
  using assms by (auto simp: postLayoutBlockHangingIndent_def)

theorem not_opted_in_noop_witness:
  "postLayoutBlockHangingIndent (helloContext\<lparr>inheritedProps := None\<rparr>)
     [helloContext] twoLineColumn = helloContext\<lparr>inheritedProps := None\<rparr> \<and>
   postLayoutBlockHangingIndent (helloContext\<lparr>inheritedProps := Some Map.empty\<rparr>)
     [helloContext] twoLineColumn = helloContext\<lparr>inheritedProps := Some Map.empty\<rparr> \<and>
   postLayoutBlockHangingIndent
     (helloContext\<lparr>inheritedProps := Some [HANGING_INDENT_PROP \<mapsto> PStr (js ''none'')]\<rparr>)
     [helloContext] twoLineColumn =
     helloContext\<lparr>inheritedProps := Some [HANGING_INDENT_PROP \<mapsto> PStr (js ''none'')]\<rparr>"
proof -
  have ne: "PStr (js ''none'') \<noteq> PStr (js ''first-word'')" by (simp add: js_def)
  show ?thesis
    using
      not_opted_in_noop [of "helloContext\<lparr>inheritedProps := None\<rparr>" "[helloContext]" twoLineColumn]
      not_opted_in_noop [of "helloContext\<lparr>inheritedProps := Some Map.empty\<rparr>"
        "[helloContext]" twoLineColumn]
      not_opted_in_noop [of
        "helloContext\<lparr>inheritedProps := Some [HANGING_INDENT_PROP \<mapsto> PStr (js ''none'')]\<rparr>"
        "[helloContext]" twoLineColumn]
      ne
    by simp
qed

text \<open>
  C6. When the rounded tops of the rectangles of all non-empty text nodes of the block
  are fewer than two distinct values, the hook changes nothing.
\<close>

theorem single_line_noop:
  assumes "viewNode nodeContext = Some blockElement"
    and "card (observedTops column blockElement) < 2"
  shows "postLayoutBlockHangingIndent nodeContext checkPoints column = nodeContext"
proof (rule ccontr)
  assume "postLayoutBlockHangingIndent nodeContext checkPoints column \<noteq> nodeContext"
  from post_changed [OF this] assms show False by auto
qed

theorem single_line_noop_witness:
  "viewNode helloContext = Some helloBlock \<and>
   card (observedTops oneLineColumn helloBlock) = 1 \<and>
   postLayoutBlockHangingIndent helloContext [helloContext] oneLineColumn = helloContext"
proof -
  have "card (observedTops oneLineColumn helloBlock) < 2" by (simp add: one_line_tops)
  from single_line_noop [OF hello_view this, of "[helloContext]"] hello_view
  show ?thesis by (simp add: one_line_tops)
qed




text \<open>
  C7. An invocation is all or nothing. Either the node context comes back as it was,
  with its view subtree and both property mappings, or everything was done: both
  markers stand in front of the former children and all three diagnostics are written.
\<close>

theorem all_or_nothing:
  "postLayoutBlockHangingIndent nodeContext checkPoints column = nodeContext \<or>
   (\<exists>blockElement W n.
      viewNode nodeContext = Some blockElement \<and>
      W = firstWordWidthOf column blockElement \<and>
      n = card (observedTops column blockElement) \<and>
      postLayoutBlockHangingIndent nodeContext checkPoints column =
        nodeContext
          \<lparr>viewNode := Some (Element (nodeName blockElement) (className blockElement)
              (style blockElement)
              (ElementNode floatSpacer # ElementNode (floatIndent W) # childNodes blockElement)),
           pluginProps := Some
             ((case pluginProps nodeContext of None \<Rightarrow> Map.empty | Some props \<Rightarrow> props)
                (''torahWindow:applied'' \<mapsto> PNum 1,
                 ''torahWindow:width'' \<mapsto> PNum W,
                 ''torahWindow:lineCount'' \<mapsto> PNum (real n)))\<rparr>)"
proof (cases "postLayoutBlockHangingIndent nodeContext checkPoints column = nodeContext")
  case True
  then show ?thesis by simp
next
  case False
  from post_changed [OF False] obtain b where
    g: "passesGate nodeContext checkPoints" and v: "viewNode nodeContext = Some b" and
    w: "firstWordWidthOf column b \<noteq> 0" and n: "2 \<le> card (observedTops column b)"
    by blast
  from post_apply [OF g v w n] v show ?thesis
    by (simp add: insertMarkers_eq writeDiagnostics_def)
qed

theorem all_or_nothing_witness:
  "postLayoutBlockHangingIndent helloContext [helloContext] oneLineColumn = helloContext \<and>
   postLayoutBlockHangingIndent helloContext [helloContext] twoLineColumn =
     helloContext
       \<lparr>viewNode := Some (Element ''p'' [] []
           [ElementNode floatSpacer, ElementNode (floatIndent 40),
            TextNode (js ''Hello world, this wraps.'')]),
        pluginProps := Some
          [''torahWindow:applied'' \<mapsto> PNum 1,
           ''torahWindow:width'' \<mapsto> PNum 40,
           ''torahWindow:lineCount'' \<mapsto> PNum 2]\<rparr>"
proof -
  have one: "card (observedTops oneLineColumn helloBlock) = 1" by (simp add: one_line_tops)
  have pp: "pluginProps helloContext = None" by (simp add: helloContext_def)
  have hb: "helloBlock = Element ''p'' [] [] [TextNode (js ''Hello world, this wraps.'')]"
    by (simp add: helloBlock_def)
  have "postLayoutBlockHangingIndent helloContext [helloContext] oneLineColumn = helloContext"
    by (rule hello_one_line_unchanged)
  moreover from all_or_nothing [of helloContext "[helloContext]" twoLineColumn] hello_changed
  have "postLayoutBlockHangingIndent helloContext [helloContext] twoLineColumn =
     helloContext
       \<lparr>viewNode := Some (Element ''p'' [] []
           [ElementNode floatSpacer, ElementNode (floatIndent 40),
            TextNode (js ''Hello world, this wraps.'')]),
        pluginProps := Some
          [''torahWindow:applied'' \<mapsto> PNum 1,
           ''torahWindow:width'' \<mapsto> PNum 40,
           ''torahWindow:lineCount'' \<mapsto> PNum 2]\<rparr>"
    by (auto simp: hello_view hello_width hello_card pp hb [symmetric])
      (simp add: hb)
  ultimately show ?thesis by simp
qed

text \<open>
  C10. After the hook changed a block, the former children follow the two markers, all
  of them and in their order. The hook never writes the inherited properties (nor the
  inline flag or the fragment index), and of the plugin properties it writes the three
  \<open>torahWindow\<close> keys only: every other key reads as before.
\<close>

theorem frame_of_post_layout:
  "(\<forall>blockElement.
      viewNode nodeContext = Some blockElement \<and>
      postLayoutBlockHangingIndent nodeContext checkPoints column \<noteq> nodeContext \<longrightarrow>
      (\<exists>blockElement' spacer pusher.
         viewNode (postLayoutBlockHangingIndent nodeContext checkPoints column) =
           Some blockElement' \<and>
         take 2 (childNodes blockElement') = [ElementNode spacer, ElementNode pusher] \<and>
         className spacer = ''vivliostyle-hanging-indent-spacer'' \<and>
         className pusher = ''vivliostyle-hanging-indent-pusher'' \<and>
         drop 2 (childNodes blockElement') = childNodes blockElement)) \<and>
   inheritedProps (postLayoutBlockHangingIndent nodeContext checkPoints column) =
     inheritedProps nodeContext \<and>
   inline (postLayoutBlockHangingIndent nodeContext checkPoints column) = inline nodeContext \<and>
   fragmentIndex (postLayoutBlockHangingIndent nodeContext checkPoints column) =
     fragmentIndex nodeContext \<and>
   (\<forall>key. key \<noteq> ''torahWindow:applied'' \<and> key \<noteq> ''torahWindow:width'' \<and>
          key \<noteq> ''torahWindow:lineCount'' \<longrightarrow>
      diagnostic (postLayoutBlockHangingIndent nodeContext checkPoints column) key =
        diagnostic nodeContext key)"
proof (cases "postLayoutBlockHangingIndent nodeContext checkPoints column = nodeContext")
  case True
  then show ?thesis by simp
next
  case False
  from post_changed [OF False] obtain b where
    g: "passesGate nodeContext checkPoints" and v: "viewNode nodeContext = Some b" and
    w: "firstWordWidthOf column b \<noteq> 0" and n: "2 \<le> card (observedTops column b)"
    by blast
  have cls: "className floatSpacer = ''vivliostyle-hanging-indent-spacer''"
    "className (floatIndent W) = ''vivliostyle-hanging-indent-pusher''" for W
    by (simp_all add: floatSpacer_def floatIndent_def)
  show ?thesis
    unfolding post_apply [OF g v w n]
    by (simp add: v insertMarkers_eq cls diagnostic_def writeDiagnostics_def split: option.split)
qed

theorem frame_of_post_layout_witness:
  "viewNode helloContext = Some helloBlock \<and>
   postLayoutBlockHangingIndent helloContext [helloContext] twoLineColumn \<noteq> helloContext \<and>
   (\<exists>blockElement'.
      viewNode (postLayoutBlockHangingIndent helloContext [helloContext] twoLineColumn) =
        Some blockElement' \<and>
      drop 2 (childNodes blockElement') = [TextNode (js ''Hello world, this wraps.'')]) \<and>
   inheritedProps (postLayoutBlockHangingIndent helloContext [helloContext] twoLineColumn) =
     inheritedProps helloContext \<and>
   diagnostic (postLayoutBlockHangingIndent helloContext [helloContext] twoLineColumn)
     ''unrelated'' = None"
proof -
  have d: "diagnostic helloContext ''unrelated'' = None"
    by (simp add: diagnostic_def helloContext_def)
  from frame_of_post_layout [of helloContext "[helloContext]" twoLineColumn]
    hello_view hello_changed d
  show ?thesis by (auto simp: hello_children)
qed

text \<open>
  C8. The style hook is a total function of the node context and the style object, and
  returns the node context only. When the style object holds a truthy value under
  \<open>hanging-indent\<close> (an identifier, a non-empty string, or another object), the hook
  stores its string form (the identifier's name, the string, the result of
  \<open>toString()\<close>) under \<open>hanging-indent\<close> in the inherited properties, creating the
  mapping when there was none, and changes nothing else. When the key is missing or its
  value is falsy, the node context is returned as it was.
\<close>

theorem style_capture:
  "(\<forall>s. styleObj HANGING_INDENT_PROP = Some (Ident s) \<or>
        styleObj HANGING_INDENT_PROP = Some (StringVal s) \<and> s \<noteq> [] \<or>
        styleObj HANGING_INDENT_PROP = Some (OtherVal s) \<longrightarrow>
      preprocessElementStyleHook nodeContext styleObj =
        nodeContext\<lparr>inheritedProps := Some
          ((case inheritedProps nodeContext of None \<Rightarrow> Map.empty | Some props \<Rightarrow> props)
             (HANGING_INDENT_PROP \<mapsto> PStr s))\<rparr>) \<and>
   (styleObj HANGING_INDENT_PROP = None \<or>
    styleObj HANGING_INDENT_PROP = Some (StringVal []) \<or>
    styleObj HANGING_INDENT_PROP = Some Falsy \<longrightarrow>
      preprocessElementStyleHook nodeContext styleObj = nodeContext)"
  by (auto simp: preprocessElementStyleHook_def)

theorem style_capture_witness:
  "preprocessElementStyleHook (helloContext\<lparr>inheritedProps := None\<rparr>)
     [HANGING_INDENT_PROP \<mapsto> Ident (js ''first-word'')] = helloContext \<and>
   preprocessElementStyleHook helloContext [HANGING_INDENT_PROP \<mapsto> StringVal (js ''none'')] =
     helloContext\<lparr>inheritedProps := Some [HANGING_INDENT_PROP \<mapsto> PStr (js ''none'')]\<rparr> \<and>
   preprocessElementStyleHook helloContext [HANGING_INDENT_PROP \<mapsto> StringVal []] = helloContext \<and>
   preprocessElementStyleHook helloContext Map.empty = helloContext"
  using
    style_capture [of "[HANGING_INDENT_PROP \<mapsto> Ident (js ''first-word'')]"
      "helloContext\<lparr>inheritedProps := None\<rparr>"]
    style_capture [of "[HANGING_INDENT_PROP \<mapsto> StringVal (js ''none'')]" helloContext]
    style_capture [of "[HANGING_INDENT_PROP \<mapsto> StringVal []]" helloContext]
    style_capture [of Map.empty helloContext]
  by (simp add: helloContext_def js_def)

text \<open>
  C9. The hook is not idempotent. On the two-line paragraph, with a column that reports
  the same rectangles again for the text node (now the third child), a second
  invocation on the result of the first finds the same first word and two lines, and
  inserts a second spacer and pusher: the block ends with four markers.
\<close>

theorem not_idempotent:
  "postLayoutBlockHangingIndent
     (postLayoutBlockHangingIndent helloContext [helloContext] twoLineColumn)
     [helloContext] twoLineColumn =
   helloContext
     \<lparr>viewNode := Some (Element ''p'' [] []
         [ElementNode floatSpacer, ElementNode (floatIndent 40),
          ElementNode floatSpacer, ElementNode (floatIndent 40),
          TextNode (js ''Hello world, this wraps.'')]),
      pluginProps := Some
        [''torahWindow:applied'' \<mapsto> PNum 1,
         ''torahWindow:width'' \<mapsto> PNum 40,
         ''torahWindow:lineCount'' \<mapsto> PNum 2]\<rparr> \<and>
   postLayoutBlockHangingIndent
     (postLayoutBlockHangingIndent helloContext [helloContext] twoLineColumn)
     [helloContext] twoLineColumn \<noteq>
   postLayoutBlockHangingIndent helloContext [helloContext] twoLineColumn"
proof -
  let ?once = "postLayoutBlockHangingIndent helloContext [helloContext] twoLineColumn"
  let ?twice = "postLayoutBlockHangingIndent ?once [helloContext] twoLineColumn"
  have b2: "insertMarkers (insertMarkers helloBlock 40) 40 =
       Element ''p'' [] []
         [ElementNode floatSpacer, ElementNode (floatIndent 40),
          ElementNode floatSpacer, ElementNode (floatIndent 40),
          TextNode (js ''Hello world, this wraps.'')]"
    by (simp add: insertMarkers_eq helloBlock_def)
  have p2: "writeDiagnostics (Some (writeDiagnostics None 40 2)) 40 2 =
       [''torahWindow:applied'' \<mapsto> PNum 1,
        ''torahWindow:width'' \<mapsto> PNum 40,
        ''torahWindow:lineCount'' \<mapsto> PNum 2]"
    by (simp add: writeDiagnostics_def)
  have v1: "viewNode ?once = Some (insertMarkers helloBlock 40)"
    by (simp add: hello_applied)
  have v2: "viewNode ?twice = Some (insertMarkers (insertMarkers helloBlock 40) 40)"
    by (simp add: hello_twice)
  have "viewNode ?twice \<noteq> viewNode ?once"
    unfolding v1 v2 by (simp add: insertMarkers_eq)
  then have "?twice \<noteq> ?once" by auto
  moreover have "?twice = helloContext
     \<lparr>viewNode := Some (insertMarkers (insertMarkers helloBlock 40) 40),
      pluginProps := Some (writeDiagnostics (Some (writeDiagnostics None 40 2)) 40 2)\<rparr>"
    by (rule hello_twice)
  ultimately show ?thesis by (simp only: b2 p2) simp
qed

text \<open>
  C3. Let the first non-empty text node of the block, in document order, be at path
  \<open>p\<close> with text \<open>tx\<close>, and let \<open>m\<close> be the leading match of \<open>tx\<close> against "optional
  whitespace, one or more non-whitespace characters, one or more whitespace characters".
  The first-word width is the sum of the widths of the rectangles of the range from 0 to
  the length of \<open>m\<close> in that node, and it is this sum that the hook uses: on a block
  that passes the gate and has two lines or more, a sum other than 0 becomes the width
  of the pusher and the \<open>torahWindow:width\<close> diagnostic, and a hook that changed the
  block wrote such a sum. When no prefix of \<open>tx\<close> matches, or when the sum is 0, the
  hook changes nothing, however many lines the block has.
\<close>

theorem first_word_measurement:
  assumes "viewNode nodeContext = Some blockElement"
  shows
    "(\<forall>p text rest m.
        nonEmptyTextNodes blockElement = (p, text) # rest \<and> isLeadingMatch text m \<longrightarrow>
        firstWordWidthOf column blockElement =
          sum_list (map width
            (getRangeClientRects (clientLayout column) (TextRange p 0 (length m))))) \<and>
     (\<forall>p text rest.
        nonEmptyTextNodes blockElement = (p, text) # rest \<and>
        \<not> (\<exists>m. prefix m text \<and> matchesFirstWordPattern m) \<longrightarrow>
        postLayoutBlockHangingIndent nodeContext checkPoints column = nodeContext) \<and>
     (firstWordWidthOf column blockElement = 0 \<longrightarrow>
        postLayoutBlockHangingIndent nodeContext checkPoints column = nodeContext) \<and>
     (\<forall>p text rest m.
        nonEmptyTextNodes blockElement = (p, text) # rest \<and> isLeadingMatch text m \<and>
        sum_list (map width
          (getRangeClientRects (clientLayout column) (TextRange p 0 (length m)))) = 0 \<longrightarrow>
        postLayoutBlockHangingIndent nodeContext checkPoints column = nodeContext) \<and>
     (\<forall>p text rest m.
        passesGate nodeContext checkPoints \<and>
        nonEmptyTextNodes blockElement = (p, text) # rest \<and> isLeadingMatch text m \<and>
        sum_list (map width
          (getRangeClientRects (clientLayout column) (TextRange p 0 (length m)))) \<noteq> 0 \<and>
        2 \<le> card (observedTops column blockElement) \<longrightarrow>
        viewNode (postLayoutBlockHangingIndent nodeContext checkPoints column) =
          Some (Element (nodeName blockElement) (className blockElement) (style blockElement)
            (ElementNode floatSpacer #
             ElementNode (floatIndent (sum_list (map width
               (getRangeClientRects (clientLayout column) (TextRange p 0 (length m)))))) #
             childNodes blockElement)) \<and>
        map_of (style (floatIndent (sum_list (map width
          (getRangeClientRects (clientLayout column) (TextRange p 0 (length m))))))) ''width'' =
          Some (NumberPx (sum_list (map width
            (getRangeClientRects (clientLayout column) (TextRange p 0 (length m)))))) \<and>
        diagnostic (postLayoutBlockHangingIndent nodeContext checkPoints column)
          ''torahWindow:width'' =
          Some (PNum (sum_list (map width
            (getRangeClientRects (clientLayout column) (TextRange p 0 (length m))))))) \<and>
     (postLayoutBlockHangingIndent nodeContext checkPoints column \<noteq> nodeContext \<longrightarrow>
        (\<exists>p text rest m.
           nonEmptyTextNodes blockElement = (p, text) # rest \<and> isLeadingMatch text m \<and>
           diagnostic (postLayoutBlockHangingIndent nodeContext checkPoints column)
             ''torahWindow:width'' =
             Some (PNum (sum_list (map width
               (getRangeClientRects (clientLayout column) (TextRange p 0 (length m))))))))"
proof -
  let ?post = "postLayoutBlockHangingIndent nodeContext checkPoints column"
  let ?sum = "\<lambda>p m. sum_list (map width
    (getRangeClientRects (clientLayout column) (TextRange p 0 (length m))))"
  have width_eq: "firstWordWidthOf column blockElement = ?sum p m"
    if "nonEmptyTextNodes blockElement = (p, tx) # rest" "isLeadingMatch tx m" for p tx rest m
  proof -
    from that have "findFirstTextNode [] (ElementNode blockElement) = Some (p, tx)"
      and "matchFirstWord tx = Some m"
      by (simp_all add: findFirstTextNode_block isLeadingMatch_matchFirstWord)
    then show ?thesis by (simp add: measureFirstWord_Some)
  qed
  have zero_noop: "?post = nodeContext" if "firstWordWidthOf column blockElement = 0"
  proof (rule ccontr)
    assume "?post \<noteq> nodeContext"
    from post_changed [OF this] assms that show False by auto
  qed
  have no_match: "?post = nodeContext"
    if "nonEmptyTextNodes blockElement = (p, tx) # rest"
      "\<not> (\<exists>m. prefix m tx \<and> matchesFirstWordPattern m)" for p tx rest
  proof -
    from that have "findFirstTextNode [] (ElementNode blockElement) = Some (p, tx)"
      and "matchFirstWord tx = None"
      by (simp_all add: findFirstTextNode_block matchFirstWord_None_iff)
    then have "firstWordWidthOf column blockElement = 0"
      by (simp add: measureFirstWord_Some)
    then show ?thesis by (rule zero_noop)
  qed
  have pusher: "map_of (style (floatIndent W)) ''width'' = Some (NumberPx W)" for W
    by (simp add: floatIndent_def)
  have applied: "viewNode ?post =
        Some (Element (nodeName blockElement) (className blockElement) (style blockElement)
          (ElementNode floatSpacer # ElementNode (floatIndent (?sum p m)) #
           childNodes blockElement)) \<and>
      diagnostic ?post ''torahWindow:width'' = Some (PNum (?sum p m))"
    if g: "passesGate nodeContext checkPoints"
      and f: "nonEmptyTextNodes blockElement = (p, tx) # rest" and l: "isLeadingMatch tx m"
      and s: "?sum p m \<noteq> 0" and n: "2 \<le> card (observedTops column blockElement)"
    for p tx rest m
  proof -
    from width_eq [OF f l] s have w: "firstWordWidthOf column blockElement \<noteq> 0" by simp
    show ?thesis
      unfolding post_apply [OF g assms w n]
      by (simp add: width_eq [OF f l] insertMarkers_eq diagnostic_def writeDiagnostics_def)
  qed
  have changed: "\<exists>p tx rest m.
      nonEmptyTextNodes blockElement = (p, tx) # rest \<and> isLeadingMatch tx m \<and>
      diagnostic ?post ''torahWindow:width'' = Some (PNum (?sum p m))"
    if ne: "?post \<noteq> nodeContext"
  proof -
    from post_changed [OF ne] assms have
      g: "passesGate nodeContext checkPoints" and
      w: "firstWordWidthOf column blockElement \<noteq> 0" and
      n: "2 \<le> card (observedTops column blockElement)"
      by auto
    from w obtain p tx where f0: "findFirstTextNode [] (ElementNode blockElement) = Some (p, tx)"
      by (cases "findFirstTextNode [] (ElementNode blockElement)")
         (auto simp: measureFirstWord_None)
    then obtain rest where f: "nonEmptyTextNodes blockElement = (p, tx) # rest"
      by (auto simp: findFirstTextNode_block split: list.splits)
    from w f0 obtain m where m: "matchFirstWord tx = Some m"
      by (cases "matchFirstWord tx") (auto simp: measureFirstWord_Some)
    then have l: "isLeadingMatch tx m" by (rule matchFirstWord_Some_leading)
    from width_eq [OF f l] w have s: "?sum p m \<noteq> 0" by simp
    from applied [OF g f l s n] f l show ?thesis by blast
  qed
  show ?thesis
    using width_eq no_match zero_noop applied changed pusher
    by (intro conjI allI impI) (auto simp: width_eq [symmetric] intro: zero_noop)
qed

theorem first_word_measurement_witness:
  "nonEmptyTextNodes nestedBlock =
     [([1, 0], js '' Shalom  olam''), ([2], js '' and more'')] \<and>
   isLeadingMatch (js '' Shalom  olam'') (js '' Shalom  '') \<and>
   firstWordWidthOf nestedColumn nestedBlock = 30 \<and>
   viewNode (postLayoutBlockHangingIndent (helloContext\<lparr>viewNode := Some nestedBlock\<rparr>)
     [helloContext] nestedColumn) =
     Some (Element ''p'' [] []
       (ElementNode floatSpacer # ElementNode (floatIndent 30) # childNodes nestedBlock)) \<and>
   diagnostic (postLayoutBlockHangingIndent (helloContext\<lparr>viewNode := Some nestedBlock\<rparr>)
     [helloContext] nestedColumn) ''torahWindow:width'' = Some (PNum 30) \<and>
   postLayoutBlockHangingIndent (helloContext\<lparr>viewNode := Some oneWordBlock\<rparr>)
     [helloContext] twoLineColumn = helloContext\<lparr>viewNode := Some oneWordBlock\<rparr> \<and>
   firstWordWidthOf zeroWidthColumn helloBlock = 0 \<and>
   card (observedTops zeroWidthColumn helloBlock) = 2 \<and>
   postLayoutBlockHangingIndent helloContext [helloContext] zeroWidthColumn = helloContext"
proof -
  let ?nc = "helloContext\<lparr>viewNode := Some nestedBlock\<rparr>"
  have len: "length (js '' Shalom  '') = 9" by (simp add: js_def)
  have sum: "sum_list (map width (getRangeClientRects (clientLayout nestedColumn)
      (TextRange [1, 0] 0 (length (js '' Shalom  ''))))) = 30"
    by (simp only: len nested_rects) simp
  have v0: "viewNode ?nc = Some nestedBlock" by simp
  have v1: "viewNode (helloContext\<lparr>viewNode := Some oneWordBlock\<rparr>) = Some oneWordBlock"
    by simp
  have nb: "nodeName nestedBlock = ''p'' \<and> className nestedBlock = [] \<and> style nestedBlock = []"
    by (simp add: nestedBlock_def)
  have n2: "2 \<le> card (observedTops nestedColumn nestedBlock)" by (simp add: nested_card)
  note fw = first_word_measurement [OF v0, of nestedColumn "[helloContext]"]
  from fw nested_nonEmpty nested_leading
  have "firstWordWidthOf nestedColumn nestedBlock =
     sum_list (map width (getRangeClientRects (clientLayout nestedColumn)
       (TextRange [1, 0] 0 (length (js '' Shalom  '')))))"
    by blast
  then have a: "firstWordWidthOf nestedColumn nestedBlock = 30" by (simp only: sum)
  have s0: "sum_list (map width (getRangeClientRects (clientLayout nestedColumn)
      (TextRange [1, 0] 0 (length (js '' Shalom  ''))))) \<noteq> 0"
    using sum by simp
  from fw nested_gate nested_nonEmpty nested_leading s0 n2
  have "viewNode (postLayoutBlockHangingIndent ?nc [helloContext] nestedColumn) =
      Some (Element (nodeName nestedBlock) (className nestedBlock) (style nestedBlock)
        (ElementNode floatSpacer #
         ElementNode (floatIndent (sum_list (map width (getRangeClientRects
           (clientLayout nestedColumn) (TextRange [1, 0] 0 (length (js '' Shalom  ''))))))) #
         childNodes nestedBlock)) \<and>
     diagnostic (postLayoutBlockHangingIndent ?nc [helloContext] nestedColumn)
       ''torahWindow:width'' =
       Some (PNum (sum_list (map width (getRangeClientRects
         (clientLayout nestedColumn) (TextRange [1, 0] 0 (length (js '' Shalom  '')))))))"
    by blast
  then have d: "viewNode (postLayoutBlockHangingIndent ?nc [helloContext] nestedColumn) =
      Some (Element ''p'' [] []
        (ElementNode floatSpacer # ElementNode (floatIndent 30) # childNodes nestedBlock)) \<and>
     diagnostic (postLayoutBlockHangingIndent ?nc [helloContext] nestedColumn)
       ''torahWindow:width'' = Some (PNum 30)"
    by (simp only: sum nb)
  from first_word_measurement [OF v1, of twoLineColumn "[helloContext]"]
    one_word_nonEmpty one_word_no_match
  have b: "postLayoutBlockHangingIndent (helloContext\<lparr>viewNode := Some oneWordBlock\<rparr>)
     [helloContext] twoLineColumn = helloContext\<lparr>viewNode := Some oneWordBlock\<rparr>"
    by blast
  from first_word_measurement [OF hello_view, of zeroWidthColumn "[helloContext]"] zero_width
  have c: "postLayoutBlockHangingIndent helloContext [helloContext] zeroWidthColumn = helloContext"
    by blast
  from a b c d nested_nonEmpty nested_leading zero_width zero_width_card show ?thesis by simp
qed

end
